theory Spec2Isabelle
  imports Complex_Main
begin

section \<open>Two-coin Expectation-Maximization (notebook NB16, code cell 1)\<close>

text \<open>
  The development embeds the E-M part of the notebook's code cell: the function
  \<open>compute_likelihood\<close> and the \<open>while\<close> loop with its E step, M step and convergence
  test.  The generation of the random experiments, the MLE with complete data and the
  \<open>print\<close> calls inside the loop are left out; the head counts, the number of tosses per
  experiment, the two initial guesses and the threshold \<open>epsilon\<close> are parameters.
\<close>

subsection \<open>Numbers\<close>

text \<open>
  The notebook computes with numpy \<open>float64\<close> scalars.  A value is modelled as an exact
  real number or one of the three special values of IEEE arithmetic.  Rounding, overflow,
  underflow and the sign of zero are not modelled: operations on finite values are the exact
  real ones, and a zero divisor counts as \<open>+0\<close>.  What is modelled is the part of IEEE
  arithmetic that the control flow of the loop depends on: numpy scalars do not raise on a
  division by zero, they return \<open>inf\<close> or \<open>nan\<close>; \<open>nan\<close> is absorbing; and every
  comparison with \<open>nan\<close> is false.
\<close>

datatype fl = Fin real | PInf | NInf | NaN

fun fneg :: "fl \<Rightarrow> fl" where
  "fneg (Fin x) = Fin (- x)"
| "fneg PInf = NInf"
| "fneg NInf = PInf"
| "fneg NaN = NaN"

fun fadd :: "fl \<Rightarrow> fl \<Rightarrow> fl" where
  "fadd (Fin x) (Fin y) = Fin (x + y)"
| "fadd NaN _ = NaN"
| "fadd _ NaN = NaN"
| "fadd PInf NInf = NaN"
| "fadd NInf PInf = NaN"
| "fadd PInf _ = PInf"
| "fadd _ PInf = PInf"
| "fadd NInf _ = NInf"
| "fadd _ NInf = NInf"

definition fsub :: "fl \<Rightarrow> fl \<Rightarrow> fl" where
  "fsub a b = fadd a (fneg b)"

fun fmul :: "fl \<Rightarrow> fl \<Rightarrow> fl" where
  "fmul (Fin x) (Fin y) = Fin (x * y)"
| "fmul NaN _ = NaN"
| "fmul _ NaN = NaN"
| "fmul PInf (Fin y) = (if y = 0 then NaN else if 0 < y then PInf else NInf)"
| "fmul NInf (Fin y) = (if y = 0 then NaN else if 0 < y then NInf else PInf)"
| "fmul (Fin x) PInf = (if x = 0 then NaN else if 0 < x then PInf else NInf)"
| "fmul (Fin x) NInf = (if x = 0 then NaN else if 0 < x then NInf else PInf)"
| "fmul PInf PInf = PInf"
| "fmul PInf NInf = NInf"
| "fmul NInf PInf = NInf"
| "fmul NInf NInf = PInf"

fun fdiv :: "fl \<Rightarrow> fl \<Rightarrow> fl" where
  "fdiv (Fin x) (Fin y) =
     (if y \<noteq> 0 then Fin (x / y)
      else if x = 0 then NaN else if 0 < x then PInf else NInf)"
| "fdiv NaN _ = NaN"
| "fdiv _ NaN = NaN"
| "fdiv (Fin x) PInf = Fin 0"
| "fdiv (Fin x) NInf = Fin 0"
| "fdiv PInf (Fin y) = (if 0 \<le> y then PInf else NInf)"
| "fdiv NInf (Fin y) = (if 0 \<le> y then NInf else PInf)"
| "fdiv PInf PInf = NaN"
| "fdiv PInf NInf = NaN"
| "fdiv NInf PInf = NaN"
| "fdiv NInf NInf = NaN"

fun fabs :: "fl \<Rightarrow> fl" where
  "fabs (Fin x) = Fin \<bar>x\<bar>"
| "fabs PInf = PInf"
| "fabs NInf = PInf"
| "fabs NaN = NaN"

text \<open>The comparison \<open>a > b\<close>.\<close>

fun fgt :: "fl \<Rightarrow> fl \<Rightarrow> bool" where
  "fgt (Fin x) (Fin y) = (y < x)"
| "fgt PInf (Fin y) = True"
| "fgt PInf NInf = True"
| "fgt (Fin x) NInf = True"
| "fgt _ _ = False"

text \<open>
  \<open>x ** k\<close> for an exponent that is a whole number, as the C library's \<open>pow\<close> gives it:
  \<open>x ** 0\<close> is 1 for every \<open>x\<close>, and a zero base with a negative exponent gives \<open>inf\<close>.
\<close>

definition fpow :: "fl \<Rightarrow> int \<Rightarrow> fl" where
  "fpow x k =
     (if k = 0 then Fin 1
      else case x of
        NaN \<Rightarrow> NaN
      | Fin r \<Rightarrow>
          (if 0 < k then Fin (r ^ nat k)
           else if r = 0 then PInf else Fin (1 / r ^ nat (- k)))
      | PInf \<Rightarrow> (if 0 < k then PInf else Fin 0)
      | NInf \<Rightarrow> (if 0 < k then (if even k then PInf else NInf) else Fin 0))"

text \<open>
  Python's builtin \<open>max\<close> on a sequence of two items keeps the first item unless the second
  compares greater.
\<close>

definition py_max :: "fl \<Rightarrow> fl \<Rightarrow> fl" where
  "py_max a b = (if fgt b a then b else a)"

subsection \<open>The likelihood\<close>

text \<open>
  \<open>scipy.special.comb(N, k, exact=True)\<close> is library code; it is modelled by its documented
  contract: the exact number of combinations, and 0 if \<open>k > N\<close>, \<open>N < 0\<close> or \<open>k < 0\<close>.
  The head counts of the notebook are whole numbers stored in a float array, which
  \<open>comb\<close> converts with \<open>int\<close>; they are integers here.
\<close>

definition comb :: "int \<Rightarrow> int \<Rightarrow> int" where
  "comb N k = (if k > N \<or> N < 0 \<or> k < 0 then 0 else int (nat N choose nat k))"

text \<open>
  \<^verbatim>\<open>likelihood = comb(n, obs, exact=True)*(pheads**obs)*(1.0-pheads)**(n-obs)\<close>
\<close>

definition compute_likelihood :: "int \<Rightarrow> int \<Rightarrow> fl \<Rightarrow> fl" where
  "compute_likelihood obs n pheads =
     fmul (fmul (Fin (of_int (comb n obs))) (fpow pheads obs))
          (fpow (fsub (Fin 1) pheads) (n - obs))"

subsection \<open>E step\<close>

text \<open>
  The weights of one experiment:
  \<^verbatim>\<open>weightA = lA / (lA + lB)\<close>, \<^verbatim>\<open>weightB = lB / (lA + lB)\<close>.
\<close>

definition weights :: "fl \<Rightarrow> fl \<Rightarrow> fl \<times> fl" where
  "weights lA lB = (fdiv lA (fadd lA lB), fdiv lB (fadd lA lB))"

definition e_step :: "int \<Rightarrow> int \<Rightarrow> fl \<Rightarrow> fl \<Rightarrow> fl \<times> fl" where
  "e_step eH num_coin_toss pA pB =
     weights (compute_likelihood eH num_coin_toss pA)
             (compute_likelihood eH num_coin_toss pB)"

text \<open>One row \<^verbatim>\<open>weight*np.array([eH, eT])\<close> of an expectation array.\<close>

definition expectation_row :: "fl \<Rightarrow> int \<Rightarrow> int \<Rightarrow> fl \<times> fl" where
  "expectation_row weight eH eT =
     (fmul weight (Fin (of_int eH)), fmul weight (Fin (of_int eT)))"

text \<open>\<^verbatim>\<open>tail_counts = num_coin_toss - head_counts\<close>\<close>

definition tail_counts :: "int \<Rightarrow> int list \<Rightarrow> int list" where
  "tail_counts num_coin_toss head_counts = map (\<lambda>h. num_coin_toss - h) head_counts"

text \<open>
  The \<open>for\<close> loop over the experiments fills one row of \<open>expectation_A\<close> and one of
  \<open>expectation_B\<close> per experiment.
\<close>

definition expectation_A :: "int list \<Rightarrow> int \<Rightarrow> fl \<Rightarrow> fl \<Rightarrow> (fl \<times> fl) list" where
  "expectation_A head_counts num_coin_toss pA pB =
     map (\<lambda>(eH, eT). expectation_row (fst (e_step eH num_coin_toss pA pB)) eH eT)
         (zip head_counts (tail_counts num_coin_toss head_counts))"

definition expectation_B :: "int list \<Rightarrow> int \<Rightarrow> fl \<Rightarrow> fl \<Rightarrow> (fl \<times> fl) list" where
  "expectation_B head_counts num_coin_toss pA pB =
     map (\<lambda>(eH, eT). expectation_row (snd (e_step eH num_coin_toss pA pB)) eH eT)
         (zip head_counts (tail_counts num_coin_toss head_counts))"

subsection \<open>M step\<close>

text \<open>
  \<^verbatim>\<open>np.sum(E, axis = 0)[0]\<close> adds the first column and \<^verbatim>\<open>np.sum(E)\<close> all entries;
  both are \<open>0.0\<close> on an array without rows.
\<close>

definition np_sum_axis0_0 :: "(fl \<times> fl) list \<Rightarrow> fl" where
  "np_sum_axis0_0 E = foldl fadd (Fin 0) (map fst E)"

definition np_sum :: "(fl \<times> fl) list \<Rightarrow> fl" where
  "np_sum E = foldl (\<lambda>acc (a, b). fadd (fadd acc a) b) (Fin 0) E"

text \<open>\<^verbatim>\<open>theta_A = np.sum(expectation_A, axis = 0)[0] / np.sum(expectation_A)\<close>\<close>

definition m_step :: "(fl \<times> fl) list \<Rightarrow> fl" where
  "m_step E = fdiv (np_sum_axis0_0 E) (np_sum E)"

datatype error = IndexError | TypeError | NameError

text \<open>
  The builtin \<open>sum\<close> starts from the integer 0 and adds the rows in order; on an array
  without rows it returns that integer, and subscripting it raises \<open>TypeError\<close>.
  \<open>py_sum_rows\<close> is \<^verbatim>\<open>sum(E)\<close> on an array with rows, \<open>py_sum_sum\<close> is
  \<^verbatim>\<open>sum(sum(E))\<close>, and \<open>py_ratio\<close> is \<^verbatim>\<open>sum(E)[0] / sum(sum(E))\<close>.
\<close>

definition py_sum_rows :: "(fl \<times> fl) list \<Rightarrow> fl \<times> fl" where
  "py_sum_rows E = foldl (\<lambda>(x, y) (a, b). (fadd x a, fadd y b)) (Fin 0, Fin 0) E"

definition py_sum_sum :: "(fl \<times> fl) list \<Rightarrow> fl" where
  "py_sum_sum E = (let (sa, sb) = py_sum_rows E in fadd (fadd (Fin 0) sa) sb)"

definition py_ratio :: "(fl \<times> fl) list \<Rightarrow> fl" where
  "py_ratio E = fdiv (fst (py_sum_rows E)) (py_sum_sum E)"

definition m_step_py :: "(fl \<times> fl) list \<Rightarrow> error + fl" where
  "m_step_py E = (if E = [] then Inl TypeError else Inr (py_ratio E))"

subsection \<open>The loop\<close>

record em_state =
  pA_heads :: "fl list"
  pB_heads :: "fl list"
  j :: nat
  improvement :: fl
  theta_A :: "fl option"
  theta_B :: "fl option"

text \<open>
  The state before the loop: the two history arrays \<^verbatim>\<open>np.zeros(100)\<close> with the initial
  guesses in slot 0, \<^verbatim>\<open>j = 0\<close>, \<^verbatim>\<open>improvement = float('inf')\<close>; the names \<open>theta_A\<close>
  and \<open>theta_B\<close> are not bound yet.
\<close>

definition init :: "fl \<Rightarrow> fl \<Rightarrow> em_state" where
  "init guess_A guess_B =
     \<lparr>pA_heads = (replicate 100 (Fin 0))[0 := guess_A],
      pB_heads = (replicate 100 (Fin 0))[0 := guess_B],
      j = 0, improvement = PInf, theta_A = None, theta_B = None\<rparr>"

text \<open>
  \<^verbatim>\<open>improvement = max( abs(np.array([pA_heads[j+1],pB_heads[j+1]])
                          - np.array([pA_heads[j],pB_heads[j]]) ))\<close>
\<close>

definition improvement_of :: "fl \<Rightarrow> fl \<Rightarrow> fl \<Rightarrow> fl \<Rightarrow> fl" where
  "improvement_of new_A new_B old_A old_B =
     py_max (fabs (fsub new_A old_A)) (fabs (fsub new_B old_B))"

text \<open>
  One pass through the body of the \<open>while\<close> loop.  Reading or writing a history array
  outside its bounds raises \<open>IndexError\<close>; the E step reads \<open>pA_heads[j]\<close> and
  \<open>pB_heads[j]\<close> once per experiment.  Without experiments it reads nothing, \<open>theta_A\<close>
  and \<open>theta_B\<close> are computed as \<open>0.0 / 0.0\<close>, and the statement that writes
  \<open>pA_heads[j+1]\<close> raises \<open>TypeError\<close>.
\<close>

definition em_body :: "int list \<Rightarrow> int \<Rightarrow> em_state \<Rightarrow> error + em_state" where
  "em_body head_counts num_coin_toss st =
     (if head_counts \<noteq> [] \<and> (length (pA_heads st) \<le> j st \<or> length (pB_heads st) \<le> j st)
      then Inl IndexError
      else
        let pA = pA_heads st ! j st;
            pB = pB_heads st ! j st;
            eA = expectation_A head_counts num_coin_toss pA pB;
            eB = expectation_B head_counts num_coin_toss pA pB;
            theta_A' = m_step eA;
            theta_B' = m_step eB
        in (case m_step_py eA of
              Inl e \<Rightarrow> Inl e
            | Inr new_A \<Rightarrow>
                if length (pA_heads st) \<le> j st + 1 then Inl IndexError
                else
                  (case m_step_py eB of
                     Inl e \<Rightarrow> Inl e
                   | Inr new_B \<Rightarrow>
                       if length (pB_heads st) \<le> j st + 1 then Inl IndexError
                       else
                         let pA_heads' = (pA_heads st)[j st + 1 := new_A];
                             pB_heads' = (pB_heads st)[j st + 1 := new_B]
                         in Inr \<lparr>pA_heads = pA_heads',
                                  pB_heads = pB_heads',
                                  j = j st + 1,
                                  improvement =
                                    improvement_of
                                      (pA_heads' ! (j st + 1)) (pB_heads' ! (j st + 1))
                                      (pA_heads' ! j st) (pB_heads' ! j st),
                                  theta_A = Some theta_A',
                                  theta_B = Some theta_B'\<rparr>)))"



text \<open>The notebook's threshold and the whole run from two initial guesses.\<close>

definition epsilon_default :: fl where
  "epsilon_default = Fin (1 / 1000)"



subsection \<open>The binomial probability mass, as the specification words it\<close>

text \<open>
  The specification describes the likelihood evaluator by the formula
  \<open>C(n,h) \<cdot> p^h \<cdot> (1-p)^(n-h)\<close>; this definition follows those words, for comparison with
  \<open>compute_likelihood\<close>.
\<close>

definition binomial_pmf :: "nat \<Rightarrow> nat \<Rightarrow> real \<Rightarrow> real" where
  "binomial_pmf n h p = real (n choose h) * p ^ h * (1 - p) ^ (n - h)"

text \<open>
  The specification describes the M step by
  \<open>theta_c_new = \<Sum>_i(weight_c_i \<cdot> heads_i) / \<Sum>_i(weight_c_i \<cdot> tosses_per_experiment)\<close>;
  this definition follows those words, with the weight of an experiment given as a function
  of its head count.
\<close>

definition weighted_proportion :: "(int \<Rightarrow> real) \<Rightarrow> int list \<Rightarrow> int \<Rightarrow> real" where
  "weighted_proportion w hc n =
     (\<Sum>h\<leftarrow>hc. w h * real_of_int h) / (\<Sum>h\<leftarrow>hc. w h * real_of_int n)"

section \<open>Properties\<close>

subsection \<open>The likelihood evaluator\<close>

lemma binomial_pmf_nonneg: "0 \<le> p \<Longrightarrow> p \<le> 1 \<Longrightarrow> 0 \<le> binomial_pmf n h p"
  by (simp add: binomial_pmf_def)



lemma compute_likelihood_Fin:
  assumes "0 \<le> h" "h \<le> n"
  shows "compute_likelihood h n (Fin p) = Fin (binomial_pmf (nat n) (nat h) p)"
  using assms
  by (auto simp: compute_likelihood_def comb_def fpow_def fsub_def binomial_pmf_def
      nat_diff_distrib)

lemma choose_10_5: "(10::nat) choose 5 = 252"
  by (simp add: numeral_eq_Suc)

lemma likelihood_out_of_range:
  assumes "n < h \<or> h < 0"
  shows "compute_likelihood h n p = Fin 0 \<or> compute_likelihood h n p = NaN"
proof -
  have c: "comb n h = 0" using assms by (auto simp: comb_def)
  have "fmul (Fin 0) x = Fin 0 \<or> fmul (Fin 0) x = NaN" for x
    by (cases x) simp_all
  moreover have "fmul NaN x = NaN" for x by simp
  ultimately show ?thesis
    unfolding compute_likelihood_def c by (metis of_int_0)
qed


lemma likelihood_range:
  assumes "0 \<le> p" "p \<le> 1"
  shows "(\<exists>x. compute_likelihood h n (Fin p) = Fin x \<and> 0 \<le> x)
       \<or> compute_likelihood h n (Fin p) = NaN"
proof (cases "0 \<le> h \<and> h \<le> n")
  case True
  then show ?thesis
    using assms by (simp add: compute_likelihood_Fin binomial_pmf_nonneg)
next
  case False
  then have "n < h \<or> h < 0" by auto
  from likelihood_out_of_range [OF this, of "Fin p"] show ?thesis by auto
qed




subsection \<open>Sums\<close>

text \<open>
  Addition is commutative and associative in the model, so the two ways in which the
  notebook adds up an expectation array (\<open>np.sum\<close> and the builtin \<open>sum\<close>) agree, and
  \<open>theta_A\<close> is the value stored in \<open>pA_heads[j+1]\<close>.
\<close>

lemma fadd_commute: "fadd a b = fadd b a"
  by (cases a; cases b) simp_all

lemma fadd_assoc: "fadd (fadd a b) c = fadd a (fadd b c)"
  by (cases a; cases b; cases c) simp_all

lemma fadd_0 [simp]: "fadd (Fin 0) a = a" "fadd a (Fin 0) = a"
  by (cases a; simp)+

lemma foldl_fadd_acc: "foldl fadd (fadd a b) xs = fadd a (foldl fadd b xs)"
  by (induction xs arbitrary: b) (simp_all add: fadd_assoc)

lemma py_sum_rows_acc:
  "foldl (\<lambda>(x, y) (a, b). (fadd x a, fadd y b)) (x0, y0) E =
     (foldl fadd x0 (map fst E), foldl fadd y0 (map snd E))"
  by (induction E arbitrary: x0 y0) (auto simp: case_prod_beta)

lemma np_sum_acc:
  "foldl (\<lambda>acc (a, b). fadd (fadd acc a) b) c E =
     fadd (foldl fadd c (map fst E)) (foldl fadd (Fin 0) (map snd E))"
proof (induction E arbitrary: c)
  case Nil
  show ?case by simp
next
  case (Cons r E)
  obtain a b where r: "r = (a, b)" by (cases r)
  let ?X = "foldl fadd (fadd c a) (map fst E)" and ?Y = "foldl fadd (Fin 0) (map snd E)"
  have 1: "foldl fadd (fadd (Fin 0) b) (map snd E) = fadd b ?Y"
    by (simp only: fadd_0 foldl_fadd_acc [of b "Fin 0", simplified])
  have 2: "foldl fadd (fadd (fadd c a) b) (map fst E) = fadd b ?X"
    by (simp only: fadd_commute [of "fadd c a" b] foldl_fadd_acc)
  have 3: "fadd ?X (fadd b ?Y) = fadd (fadd b ?X) ?Y"
    by (simp only: fadd_assoc [symmetric] fadd_commute [of ?X b])
  have "fadd (foldl fadd (fadd c a) (map fst E)) (foldl fadd (fadd (Fin 0) b) (map snd E))
      = fadd (foldl fadd (fadd (fadd c a) b) (map fst E)) (foldl fadd (Fin 0) (map snd E))"
    by (simp only: 1 2 3)
  with Cons show ?case by (simp add: r)
qed

lemma py_sum_rows_eq:
  "py_sum_rows E = (foldl fadd (Fin 0) (map fst E), foldl fadd (Fin 0) (map snd E))"
  by (simp add: py_sum_rows_def py_sum_rows_acc)

lemma np_sum_eq_py_sum_sum: "np_sum E = py_sum_sum E"
  by (simp add: np_sum_def py_sum_sum_def py_sum_rows_eq np_sum_acc)

lemma m_step_eq_py_ratio: "m_step E = py_ratio E"
  by (simp add: m_step_def py_ratio_def np_sum_eq_py_sum_sum py_sum_rows_eq np_sum_axis0_0_def)





lemma expectation_A_eq:
  "expectation_A hc n pA pB =
     map (\<lambda>h. expectation_row (fst (e_step h n pA pB)) h (n - h)) hc"
  by (simp add: expectation_A_def tail_counts_def zip_map2 zip_same_conv_map)

lemma expectation_B_eq:
  "expectation_B hc n pA pB =
     map (\<lambda>h. expectation_row (snd (e_step h n pA pB)) h (n - h)) hc"
  by (simp add: expectation_B_def tail_counts_def zip_map2 zip_same_conv_map)


subsection \<open>The loop body and the loop\<close>

text \<open>
  The loop body as one case distinction: with experiments and room for slot \<open>j+1\<close> in both
  history arrays, the pass succeeds and yields the displayed state.
\<close>

lemma em_body_eq:
  "em_body hc n st =
     (if hc = [] then Inl TypeError
      else if length (pA_heads st) \<le> j st + 1 \<or> length (pB_heads st) \<le> j st + 1
      then Inl IndexError
      else Inr \<lparr>pA_heads = (pA_heads st)[j st + 1 :=
                    py_ratio (expectation_A hc n (pA_heads st ! j st) (pB_heads st ! j st))],
                pB_heads = (pB_heads st)[j st + 1 :=
                    py_ratio (expectation_B hc n (pA_heads st ! j st) (pB_heads st ! j st))],
                j = j st + 1,
                improvement = improvement_of
                    (py_ratio (expectation_A hc n (pA_heads st ! j st) (pB_heads st ! j st)))
                    (py_ratio (expectation_B hc n (pA_heads st ! j st) (pB_heads st ! j st)))
                    (pA_heads st ! j st) (pB_heads st ! j st),
                theta_A = Some (m_step (expectation_A hc n (pA_heads st ! j st) (pB_heads st ! j st))),
                theta_B = Some (m_step (expectation_B hc n (pA_heads st ! j st) (pB_heads st ! j st)))\<rparr>)"
  by (auto simp: em_body_def m_step_py_def Let_def expectation_A_def expectation_B_def
      tail_counts_def)

lemma em_body_Inr:
  assumes "em_body hc n st = Inr st'"
  shows "hc \<noteq> []" "j st' = j st + 1"
    "length (pA_heads st') = length (pA_heads st)"
    "length (pB_heads st') = length (pB_heads st)"
    "j st' < length (pA_heads st')" "j st' < length (pB_heads st')"
  using assms by (auto simp: em_body_eq split: if_splits)


lemma em_body_improvement:
  assumes "em_body hc n st = Inr st'"
  shows "improvement st' =
    improvement_of (pA_heads st' ! j st') (pB_heads st' ! j st')
      (pA_heads st ! j st) (pB_heads st ! j st)"
  using assms by (auto simp: em_body_eq split: if_splits)

lemma improvement_of_Fin:
  "improvement_of (Fin a') (Fin b') (Fin a) (Fin b) = Fin (max \<bar>a' - a\<bar> \<bar>b' - b\<bar>)"
  by (simp add: improvement_of_def py_max_def fsub_def max_def)

lemma init_simps:
  "j (init a b) = 0" "improvement (init a b) = PInf"
  "length (pA_heads (init a b)) = 100" "length (pB_heads (init a b)) = 100"
  "pA_heads (init a b) ! 0 = a" "pB_heads (init a b) ! 0 = b"
  "theta_A (init a b) = None" "theta_B (init a b) = None"
  by (simp_all add: init_def)






text \<open>
  A fixed point used as a concrete input below: one experiment with 5 heads in 10 tosses
  and both biases equal to \<open>1/2\<close>.
\<close>

lemma likelihood_5_10_half: "compute_likelihood 5 10 (Fin (1 / 2)) = Fin (63 / 256)"
  by (simp add: compute_likelihood_def comb_def fpow_def fsub_def choose_10_5 power_divide)

lemma e_step_5_10_half: "e_step 5 10 (Fin (1 / 2)) (Fin (1 / 2)) = (Fin (1 / 2), Fin (1 / 2))"
  by (simp add: e_step_def weights_def likelihood_5_10_half)

lemma expectation_5_10_half:
  "expectation_A [5] 10 (Fin (1 / 2)) (Fin (1 / 2)) = [(Fin (5 / 2), Fin (5 / 2))]"
  "expectation_B [5] 10 (Fin (1 / 2)) (Fin (1 / 2)) = [(Fin (5 / 2), Fin (5 / 2))]"
  by (simp_all add: expectation_A_def expectation_B_def tail_counts_def expectation_row_def
      e_step_5_10_half)

lemma ratio_5_10_half:
  "py_ratio [(Fin (5 / 2), Fin (5 / 2))] = Fin (1 / 2)"
  "m_step [(Fin (5 / 2), Fin (5 / 2))] = Fin (1 / 2)"
  by (simp_all add: py_ratio_def py_sum_sum_def py_sum_rows_def m_step_def np_sum_axis0_0_def
      np_sum_def)

lemma em_body_half:
  assumes "pA_heads st ! j st = Fin (1 / 2)" "pB_heads st ! j st = Fin (1 / 2)"
    and "j st + 1 < length (pA_heads st)" "j st + 1 < length (pB_heads st)"
  shows "em_body [5] 10 st =
     Inr \<lparr>pA_heads = (pA_heads st)[j st + 1 := Fin (1 / 2)],
          pB_heads = (pB_heads st)[j st + 1 := Fin (1 / 2)],
          j = j st + 1, improvement = Fin 0,
          theta_A = Some (Fin (1 / 2)), theta_B = Some (Fin (1 / 2))\<rparr>"
  using assms
  by (simp add: em_body_eq expectation_5_10_half ratio_5_10_half improvement_of_def
      fsub_def py_max_def)


subsection \<open>The convergence criterion\<close>



subsection \<open>The bound on the number of passes\<close>



subsection \<open>The first pass\<close>




subsection \<open>E step: the responsibilities\<close>

text \<open>
  Claim C3.  For every experiment in every E step, with \<open>likelihood_A\<close> and \<open>likelihood_B\<close>
  computed by \<open>compute_likelihood\<close> under the current pair of biases (each in \<open>[0,1]\<close>) and
  \<open>likelihood_A + likelihood_B > 0\<close>: \<open>weight_A = likelihood_A / (likelihood_A + likelihood_B)\<close>
  and \<open>weight_B = 1 - weight_A\<close>; hence \<open>weight_A + weight_B = 1\<close> and both weights lie in
  \<open>[0,1]\<close>.
\<close>

theorem responsibilities_normalised:
  assumes "0 \<le> a" "a \<le> 1" "0 \<le> b" "b \<le> 1"
    and "fgt (fadd (compute_likelihood h n (Fin a)) (compute_likelihood h n (Fin b))) (Fin 0)"
  shows "\<exists>x y wA wB.
      compute_likelihood h n (Fin a) = Fin x \<and> compute_likelihood h n (Fin b) = Fin y
    \<and> e_step h n (Fin a) (Fin b) = (Fin wA, Fin wB)
    \<and> wA = x / (x + y) \<and> wB = 1 - wA \<and> wA + wB = 1
    \<and> fadd (Fin wA) (Fin wB) = Fin 1
    \<and> 0 \<le> wA \<and> wA \<le> 1 \<and> 0 \<le> wB \<and> wB \<le> 1"
proof -
  from likelihood_range [OF assms(1,2), of h n] likelihood_range [OF assms(3,4), of h n] assms(5)
  obtain x y where l: "compute_likelihood h n (Fin a) = Fin x"
    "compute_likelihood h n (Fin b) = Fin y" and nn: "0 \<le> x" "0 \<le> y"
    by auto
  from assms(5) l have pos: "0 < x + y" by simp
  have "e_step h n (Fin a) (Fin b) = (Fin (x / (x + y)), Fin (1 - x / (x + y)))"
    using pos by (simp add: e_step_def weights_def l field_simps)
  moreover have "0 \<le> x / (x + y)" "x / (x + y) \<le> 1"
    using pos nn by (simp_all add: field_simps)
  ultimately show ?thesis using l by auto
qed

theorem responsibilities_normalised_witness:
  "fgt (fadd (compute_likelihood 5 10 (Fin (1 / 2))) (compute_likelihood 5 10 (Fin (1 / 2)))) (Fin 0)
   \<and> e_step 5 10 (Fin (1 / 2)) (Fin (1 / 2)) = (Fin (1 / 2), Fin (1 / 2))"
  using responsibilities_normalised [of "1 / 2" "1 / 2" 5 10]
  by (simp add: likelihood_5_10_half e_step_5_10_half)




subsection \<open>M step: a zero denominator\<close>






subsection \<open>Observations outside the range\<close>




subsection \<open>M step: the weighted proportion\<close>

lemma foldl_fadd_Fin:
  "foldl fadd (Fin c) (map (\<lambda>h. Fin (f h)) hs) = Fin (c + (\<Sum>h\<leftarrow>hs. f h))"
  by (induction hs arbitrary: c) (simp_all add: add.assoc)

lemma py_sum_rows_Fin:
  "py_sum_rows (map (\<lambda>h. (Fin (f h), Fin (g h))) hs) =
     (Fin (\<Sum>h\<leftarrow>hs. f h), Fin (\<Sum>h\<leftarrow>hs. g h))"
  using foldl_fadd_Fin [of 0 f hs] foldl_fadd_Fin [of 0 g hs]
  by (simp add: py_sum_rows_eq comp_def)

lemma py_ratio_Fin:
  "py_ratio (map (\<lambda>h. (Fin (f h), Fin (g h))) hs) =
     fdiv (Fin (\<Sum>h\<leftarrow>hs. f h)) (Fin ((\<Sum>h\<leftarrow>hs. f h) + (\<Sum>h\<leftarrow>hs. g h)))"
  by (simp add: py_ratio_def py_sum_sum_def py_sum_rows_Fin)

lemma weighted_sums:
  fixes w :: "int \<Rightarrow> real"
  shows "(\<Sum>h\<leftarrow>hc. w h * real_of_int h) + (\<Sum>h\<leftarrow>hc. w h * (real_of_int n - real_of_int h)) =
     (\<Sum>h\<leftarrow>hc. w h * real_of_int n)"
  by (induction hc) (simp_all add: algebra_simps)

lemma weighted_heads_bounds:
  fixes w :: "int \<Rightarrow> real"
  assumes "\<forall>h\<in>set hc. 0 \<le> h \<and> h \<le> n" "\<forall>h\<in>set hc. 0 \<le> w h"
  shows "0 \<le> (\<Sum>h\<leftarrow>hc. w h * real_of_int h)"
    and "(\<Sum>h\<leftarrow>hc. w h * real_of_int h) \<le> (\<Sum>h\<leftarrow>hc. w h * real_of_int n)"
  using assms by (induction hc) (auto intro!: add_mono mult_left_mono add_nonneg_nonneg)

lemma expectation_rows_Fin:
  assumes "\<forall>h\<in>set hc. sel (e_step h n pA pB) = Fin (w h)"
  shows "map (\<lambda>h. expectation_row (sel (e_step h n pA pB)) h (n - h)) hc =
     map (\<lambda>h. (Fin (w h * real_of_int h), Fin (w h * (real_of_int n - real_of_int h)))) hc"
  using assms by (simp add: expectation_row_def)

lemma m_step_proportion:
  fixes w :: "int \<Rightarrow> real"
  assumes "\<forall>h\<in>set hc. 0 \<le> h \<and> h \<le> n" "\<forall>h\<in>set hc. 0 \<le> w h"
    and "0 < (\<Sum>h\<leftarrow>hc. w h * real_of_int n)"
  shows "py_ratio (map (\<lambda>h. (Fin (w h * real_of_int h),
                              Fin (w h * (real_of_int n - real_of_int h)))) hc)
      = Fin (weighted_proportion w hc n)"
    and "0 \<le> weighted_proportion w hc n" and "weighted_proportion w hc n \<le> 1"
proof -
  note b = weighted_heads_bounds [OF assms(1,2)]
  show "py_ratio (map (\<lambda>h. (Fin (w h * real_of_int h),
                              Fin (w h * (real_of_int n - real_of_int h)))) hc)
      = Fin (weighted_proportion w hc n)"
    unfolding py_ratio_Fin weighted_sums weighted_proportion_def
    using assms(3) by simp
  show "0 \<le> weighted_proportion w hc n"
    unfolding weighted_proportion_def using b(1) assms(3) by simp
  show "weighted_proportion w hc n \<le> 1"
    unfolding weighted_proportion_def using b(2) assms(3) by simp
qed

text \<open>
  Claim C2.  For each coin, the M step produces
  \<open>theta_new = \<Sum>(weight \<cdot> heads) / \<Sum>(weight \<cdot> tosses_per_experiment)\<close>, whose denominator
  equals \<open>\<Sum>(weight \<cdot> heads) + \<Sum>(weight \<cdot> tails)\<close>; whenever every weight is in \<open>[0,1]\<close> and
  the denominator is positive, the new estimate lies in \<open>[0,1]\<close>.  The experiments are
  experiment records: \<open>0 \<le> heads \<le> tosses_per_experiment\<close>.
\<close>

theorem m_step_is_weighted_proportion:
  fixes wA wB :: "int \<Rightarrow> real"
  assumes "hc \<noteq> []" "\<forall>h\<in>set hc. 0 \<le> h \<and> h \<le> n"
    and "\<forall>h\<in>set hc. e_step h n (pA_heads st ! j st) (pB_heads st ! j st) = (Fin (wA h), Fin (wB h))
            \<and> 0 \<le> wA h \<and> wA h \<le> 1 \<and> 0 \<le> wB h \<and> wB h \<le> 1"
    and "j st + 1 < length (pA_heads st)" "j st + 1 < length (pB_heads st)"
  shows "\<exists>st'. em_body hc n st = Inr st'
    \<and> pA_heads st' ! j st' =
        fdiv (Fin (\<Sum>h\<leftarrow>hc. wA h * real_of_int h)) (Fin (\<Sum>h\<leftarrow>hc. wA h * real_of_int n))
    \<and> pB_heads st' ! j st' =
        fdiv (Fin (\<Sum>h\<leftarrow>hc. wB h * real_of_int h)) (Fin (\<Sum>h\<leftarrow>hc. wB h * real_of_int n))
    \<and> theta_A st' = Some (pA_heads st' ! j st')
    \<and> theta_B st' = Some (pB_heads st' ! j st')
    \<and> (\<Sum>h\<leftarrow>hc. wA h * real_of_int n) =
        (\<Sum>h\<leftarrow>hc. wA h * real_of_int h) + (\<Sum>h\<leftarrow>hc. wA h * real_of_int (n - h))
    \<and> (\<Sum>h\<leftarrow>hc. wB h * real_of_int n) =
        (\<Sum>h\<leftarrow>hc. wB h * real_of_int h) + (\<Sum>h\<leftarrow>hc. wB h * real_of_int (n - h))
    \<and> (0 < (\<Sum>h\<leftarrow>hc. wA h * real_of_int n) \<longrightarrow>
          pA_heads st' ! j st' = Fin (weighted_proportion wA hc n)
          \<and> 0 \<le> weighted_proportion wA hc n \<and> weighted_proportion wA hc n \<le> 1)
    \<and> (0 < (\<Sum>h\<leftarrow>hc. wB h * real_of_int n) \<longrightarrow>
          pB_heads st' ! j st' = Fin (weighted_proportion wB hc n)
          \<and> 0 \<le> weighted_proportion wB hc n \<and> weighted_proportion wB hc n \<le> 1)"
proof -
  let ?pA = "pA_heads st ! j st" and ?pB = "pB_heads st ! j st"
  let ?rA = "fdiv (Fin (\<Sum>h\<leftarrow>hc. wA h * real_of_int h)) (Fin (\<Sum>h\<leftarrow>hc. wA h * real_of_int n))"
  let ?rB = "fdiv (Fin (\<Sum>h\<leftarrow>hc. wB h * real_of_int h)) (Fin (\<Sum>h\<leftarrow>hc. wB h * real_of_int n))"
  have A: "expectation_A hc n ?pA ?pB =
      map (\<lambda>h. (Fin (wA h * real_of_int h), Fin (wA h * (real_of_int n - real_of_int h)))) hc"
    unfolding expectation_A_eq using assms(3) by (intro expectation_rows_Fin) simp
  have B: "expectation_B hc n ?pA ?pB =
      map (\<lambda>h. (Fin (wB h * real_of_int h), Fin (wB h * (real_of_int n - real_of_int h)))) hc"
    unfolding expectation_B_eq using assms(3) by (intro expectation_rows_Fin) simp
  have rA: "py_ratio (expectation_A hc n ?pA ?pB) = ?rA"
    unfolding A py_ratio_Fin weighted_sums ..
  have rB: "py_ratio (expectation_B hc n ?pA ?pB) = ?rB"
    unfolding B py_ratio_Fin weighted_sums ..
  have nA: "\<forall>h\<in>set hc. 0 \<le> wA h" and nB: "\<forall>h\<in>set hc. 0 \<le> wB h"
    using assms(3) by auto
  have body: "em_body hc n st = Inr
      \<lparr>pA_heads = (pA_heads st)[j st + 1 := ?rA],
       pB_heads = (pB_heads st)[j st + 1 := ?rB],
       j = j st + 1,
       improvement = improvement_of ?rA ?rB ?pA ?pB,
       theta_A = Some ?rA, theta_B = Some ?rB\<rparr>"
    using assms(1,4,5) by (simp add: em_body_eq m_step_eq_py_ratio rA rB)
  have sums: "(\<Sum>h\<leftarrow>hc. wA h * real_of_int n) =
        (\<Sum>h\<leftarrow>hc. wA h * real_of_int h) + (\<Sum>h\<leftarrow>hc. wA h * real_of_int (n - h))"
    "(\<Sum>h\<leftarrow>hc. wB h * real_of_int n) =
        (\<Sum>h\<leftarrow>hc. wB h * real_of_int h) + (\<Sum>h\<leftarrow>hc. wB h * real_of_int (n - h))"
    by (simp_all only: of_int_diff weighted_sums)
  have pA: "?rA = Fin (weighted_proportion wA hc n)
          \<and> 0 \<le> weighted_proportion wA hc n \<and> weighted_proportion wA hc n \<le> 1"
    if "0 < (\<Sum>h\<leftarrow>hc. wA h * real_of_int n)"
    using m_step_proportion [OF assms(2) nA that] that
    by (simp add: weighted_proportion_def)
  have pB: "?rB = Fin (weighted_proportion wB hc n)
          \<and> 0 \<le> weighted_proportion wB hc n \<and> weighted_proportion wB hc n \<le> 1"
    if "0 < (\<Sum>h\<leftarrow>hc. wB h * real_of_int n)"
    using m_step_proportion [OF assms(2) nB that] that
    by (simp add: weighted_proportion_def)
  show ?thesis
    unfolding body using assms(4,5) sums pA pB by simp
qed

theorem m_step_is_weighted_proportion_witness:
  "\<exists>st'. em_body [5] 10 (init (Fin (1 / 2)) (Fin (1 / 2))) = Inr st'
     \<and> pA_heads st' ! j st' = Fin (1 / 2) \<and> pB_heads st' ! j st' = Fin (1 / 2)
     \<and> weighted_proportion (\<lambda>h. 1 / 2) [5] 10 = 1 / 2"
proof -
  from m_step_is_weighted_proportion [of "[5]" 10 "init (Fin (1 / 2)) (Fin (1 / 2))"
      "\<lambda>h. 1 / 2" "\<lambda>h. 1 / 2"]
  obtain st' where "em_body [5] 10 (init (Fin (1 / 2)) (Fin (1 / 2))) = Inr st'"
    "pA_heads st' ! j st' = Fin (1 / 2)" "pB_heads st' ! j st' = Fin (1 / 2)"
    by (auto simp: init_simps e_step_5_10_half)
  then show ?thesis by (auto simp: weighted_proportion_def)
qed

subsection \<open>One more cycle after convergence\<close>

text \<open>
  The experiments 7 and 3 heads in 10 tosses with biases \<open>a\<close> and \<open>1 - a\<close>: the
  responsibilities reduce to \<open>a^4 / (a^4 + (1-a)^4)\<close> and its complement.
\<close>

lemma choose_10_7: "(10::nat) choose 7 = 120" "(10::nat) choose 3 = 120"
  by (simp_all add: numeral_eq_Suc)

lemma likelihood_7_3:
  "compute_likelihood 7 10 (Fin p) = Fin (120 * p ^ 7 * (1 - p) ^ 3)"
  "compute_likelihood 3 10 (Fin p) = Fin (120 * p ^ 3 * (1 - p) ^ 7)"
  by (simp_all add: compute_likelihood_def comb_def fpow_def fsub_def choose_10_7)

lemma weights_cancel:
  fixes c x y :: real
  assumes "0 < c" "0 < x" "0 < y"
  shows "weights (Fin (c * x)) (Fin (c * y)) = (Fin (x / (x + y)), Fin (y / (x + y)))"
proof -
  have "c * x + c * y = c * (x + y)" by (simp add: algebra_simps)
  moreover have "c * (x + y) \<noteq> 0" using assms by simp
  ultimately show ?thesis using assms by (simp add: weights_def)
qed

lemma e_step_7_3_sym:
  assumes "0 < a" "a < 1"
  shows "e_step 7 10 (Fin a) (Fin (1 - a)) =
      (Fin (a ^ 4 / (a ^ 4 + (1 - a) ^ 4)), Fin ((1 - a) ^ 4 / (a ^ 4 + (1 - a) ^ 4)))"
    and "e_step 3 10 (Fin a) (Fin (1 - a)) =
      (Fin ((1 - a) ^ 4 / ((1 - a) ^ 4 + a ^ 4)), Fin (a ^ 4 / ((1 - a) ^ 4 + a ^ 4)))"
proof -
  define b where "b = 1 - a"
  define c where "c = 120 * a ^ 3 * b ^ 3"
  have b: "0 < b" "1 - b = a" using assms by (simp_all add: b_def)
  have c: "0 < c" using assms b by (simp add: c_def)
  have p: "0 < a ^ 4" "0 < b ^ 4" using assms b by simp_all
  have x: "120 * a ^ 7 * b ^ 3 = c * a ^ 4" "120 * b ^ 7 * a ^ 3 = c * b ^ 4"
    "120 * a ^ 3 * b ^ 7 = c * b ^ 4" "120 * b ^ 3 * a ^ 7 = c * a ^ 4"
    by (simp_all add: c_def eval_nat_numeral)
  show "e_step 7 10 (Fin a) (Fin (1 - a)) =
      (Fin (a ^ 4 / (a ^ 4 + (1 - a) ^ 4)), Fin ((1 - a) ^ 4 / (a ^ 4 + (1 - a) ^ 4)))"
    unfolding e_step_def likelihood_7_3 b_def [symmetric] b(2) x
    by (rule weights_cancel [OF c p])
  show "e_step 3 10 (Fin a) (Fin (1 - a)) =
      (Fin ((1 - a) ^ 4 / ((1 - a) ^ 4 + a ^ 4)), Fin (a ^ 4 / ((1 - a) ^ 4 + a ^ 4)))"
    unfolding e_step_def likelihood_7_3 b_def [symmetric] b(2) x
    by (rule weights_cancel [OF c p(2,1)])
qed

lemma py_ratio_two_rows:
  "py_ratio [(Fin p, Fin q), (Fin r, Fin s)] = fdiv (Fin (p + r)) (Fin (p + r + (q + s)))"
  by (simp add: py_ratio_def py_sum_sum_def py_sum_rows_def)

lemma pass_7_3_sym:
  assumes "0 < a" "a < 1"
  shows "py_ratio (expectation_A [7, 3] 10 (Fin a) (Fin (1 - a))) =
      Fin ((7 * (a ^ 4 / (a ^ 4 + (1 - a) ^ 4)) + 3 * ((1 - a) ^ 4 / (a ^ 4 + (1 - a) ^ 4))) / 10)"
    and "py_ratio (expectation_B [7, 3] 10 (Fin a) (Fin (1 - a))) =
      Fin ((7 * ((1 - a) ^ 4 / (a ^ 4 + (1 - a) ^ 4)) + 3 * (a ^ 4 / (a ^ 4 + (1 - a) ^ 4))) / 10)"
proof -
  define u where "u = a ^ 4 / (a ^ 4 + (1 - a) ^ 4)"
  define v where "v = (1 - a) ^ 4 / (a ^ 4 + (1 - a) ^ 4)"
  have "0 < a ^ 4 + (1 - a) ^ 4" using assms by (simp add: add_pos_pos)
  then have uv: "u + v = 1"
    unfolding u_def v_def by (simp add: add_divide_distrib [symmetric])
  have e: "e_step 7 10 (Fin a) (Fin (1 - a)) = (Fin u, Fin v)"
    "e_step 3 10 (Fin a) (Fin (1 - a)) = (Fin v, Fin u)"
    unfolding u_def v_def
    by (simp_all only: e_step_7_3_sym [OF assms] add.commute [of "(1 - a) ^ 4"])
  have A: "expectation_A [7, 3] 10 (Fin a) (Fin (1 - a)) =
      [(Fin (u * 7), Fin (u * 3)), (Fin (v * 3), Fin (v * 7))]"
    by (simp add: expectation_A_eq e expectation_row_def)
  have B: "expectation_B [7, 3] 10 (Fin a) (Fin (1 - a)) =
      [(Fin (v * 7), Fin (v * 3)), (Fin (u * 3), Fin (u * 7))]"
    by (simp add: expectation_B_eq e expectation_row_def)
  have d: "u * 7 + v * 3 + (u * 3 + v * 7) = 10" "v * 7 + u * 3 + (v * 3 + u * 7) = 10"
    using uv by linarith+
  have "py_ratio (expectation_A [7, 3] 10 (Fin a) (Fin (1 - a))) = Fin ((7 * u + 3 * v) / 10)"
    unfolding A py_ratio_two_rows d by (simp add: mult.commute)
  then show "py_ratio (expectation_A [7, 3] 10 (Fin a) (Fin (1 - a))) =
      Fin ((7 * (a ^ 4 / (a ^ 4 + (1 - a) ^ 4)) + 3 * ((1 - a) ^ 4 / (a ^ 4 + (1 - a) ^ 4))) / 10)"
    unfolding u_def v_def .
  have "py_ratio (expectation_B [7, 3] 10 (Fin a) (Fin (1 - a))) = Fin ((7 * v + 3 * u) / 10)"
    unfolding B py_ratio_two_rows d by (simp add: mult.commute)
  then show "py_ratio (expectation_B [7, 3] 10 (Fin a) (Fin (1 - a))) =
      Fin ((7 * ((1 - a) ^ 4 / (a ^ 4 + (1 - a) ^ 4)) + 3 * (a ^ 4 / (a ^ 4 + (1 - a) ^ 4))) / 10)"
    unfolding u_def v_def .
qed

lemma pass_1_A:
  "py_ratio (expectation_A [7, 3] 10 (Fin (1003 / 2000)) (Fin (997 / 2000))) =
     Fin (1004854043281 / 2000108000162)"
  using pass_7_3_sym(1) [of "1003 / 2000"] by (simp add: power_divide)

lemma pass_1_B:
  "py_ratio (expectation_B [7, 3] 10 (Fin (1003 / 2000)) (Fin (997 / 2000))) =
     Fin (995253956881 / 2000108000162)"
  using pass_7_3_sym(2) [of "1003 / 2000"] by (simp add: power_divide)

lemma pass_2_A:
  "py_ratio (expectation_A [7, 3] 10 (Fin (1004854043281 / 2000108000162))
       (Fin (995253956881 / 2000108000162))) =
     Fin (1008035766092271905606572342552375221897968888641 /
          2000708551540977029460345952338213465270605773442)"
  using pass_7_3_sym(1) [of "1004854043281 / 2000108000162"] by (simp add: power_divide)

lemma pass_2_B:
  "py_ratio (expectation_B [7, 3] 10 (Fin (1004854043281 / 2000108000162))
       (Fin (995253956881 / 2000108000162))) =
     Fin (992672785448705123853773609785838243372636884801 /
          2000708551540977029460345952338213465270605773442)"
  using pass_7_3_sym(2) [of "1004854043281 / 2000108000162"] by (simp add: power_divide)

text \<open>
  Claim C9 says that whenever one E/M cycle changes both biases by at most \<open>epsilon\<close>, one
  more cycle from the resulting pair again changes them by at most \<open>epsilon\<close>.  Near the
  symmetric pair \<open>(0.5, 0.5)\<close> the steps grow: with head counts 7 and 3 in 10 tosses, the
  initial pair \<open>(0.5015, 0.4985)\<close> and the notebook's \<open>epsilon = 0.001\<close>, the first cycle
  moves both biases by about 0.0009 (so the loop stops there), and a second cycle from the
  resulting pair moves them by about 0.0014.
\<close>

theorem small_step_then_larger_step:
  "em_body [7, 3] 10 (init (Fin (1003 / 2000)) (Fin (997 / 2000))) =
     Inr \<lparr>pA_heads = (replicate 100 (Fin 0))[0 := Fin (1003 / 2000), 1 := Fin (1004854043281 / 2000108000162)],
      pB_heads = (replicate 100 (Fin 0))[0 := Fin (997 / 2000), 1 := Fin (995253956881 / 2000108000162)],
      j = 1, improvement = Fin (1799881199757 / 2000108000162000),
      theta_A = Some (Fin (1004854043281 / 2000108000162)), theta_B = Some (Fin (995253956881 / 2000108000162))\<rparr>
   \<and> \<not> fgt (Fin (1799881199757 / 2000108000162000)) epsilon_default
   \<and> em_body [7, 3] 10
     \<lparr>pA_heads = (replicate 100 (Fin 0))[0 := Fin (1003 / 2000), 1 := Fin (1004854043281 / 2000108000162)],
      pB_heads = (replicate 100 (Fin 0))[0 := Fin (997 / 2000), 1 := Fin (995253956881 / 2000108000162)],
      j = 1, improvement = Fin (1799881199757 / 2000108000162000),
      theta_A = Some (Fin (1004854043281 / 2000108000162)), theta_B = Some (Fin (995253956881 / 2000108000162))\<rparr> =
     Inr \<lparr>pA_heads = (replicate 100 (Fin 0))[0 := Fin (1003 / 2000), 1 := Fin (1004854043281 / 2000108000162),
        2 := Fin (1008035766092271905606572342552375221897968888641 / 2000708551540977029460345952338213465270605773442)],
      pB_heads = (replicate 100 (Fin 0))[0 := Fin (997 / 2000), 1 := Fin (995253956881 / 2000108000162),
        2 := Fin (992672785448705123853773609785838243372636884801 / 2000708551540977029460345952338213465270605773442)],
      j = 2, improvement = Fin (1440080691939954869881239990478625808035314906517059904160 / 1000408294982408817447377975202963875468562838420342467824401),
      theta_A = Some (Fin (1008035766092271905606572342552375221897968888641 / 2000708551540977029460345952338213465270605773442)),
      theta_B = Some (Fin (992672785448705123853773609785838243372636884801 / 2000708551540977029460345952338213465270605773442))\<rparr>
   \<and> fgt (Fin (1440080691939954869881239990478625808035314906517059904160 / 1000408294982408817447377975202963875468562838420342467824401)) epsilon_default"
proof -
  let ?s1 = "\<lparr>pA_heads = (replicate 100 (Fin 0))[0 := Fin (1003 / 2000), 1 := Fin (1004854043281 / 2000108000162)],
      pB_heads = (replicate 100 (Fin 0))[0 := Fin (997 / 2000), 1 := Fin (995253956881 / 2000108000162)],
      j = 1, improvement = Fin (1799881199757 / 2000108000162000),
      theta_A = Some (Fin (1004854043281 / 2000108000162)), theta_B = Some (Fin (995253956881 / 2000108000162))\<rparr>"
  let ?s2 = "\<lparr>pA_heads = (replicate 100 (Fin 0))[0 := Fin (1003 / 2000), 1 := Fin (1004854043281 / 2000108000162),
        2 := Fin (1008035766092271905606572342552375221897968888641 / 2000708551540977029460345952338213465270605773442)],
      pB_heads = (replicate 100 (Fin 0))[0 := Fin (997 / 2000), 1 := Fin (995253956881 / 2000108000162),
        2 := Fin (992672785448705123853773609785838243372636884801 / 2000708551540977029460345952338213465270605773442)],
      j = 2, improvement = Fin (1440080691939954869881239990478625808035314906517059904160 / 1000408294982408817447377975202963875468562838420342467824401),
      theta_A = Some (Fin (1008035766092271905606572342552375221897968888641 / 2000708551540977029460345952338213465270605773442)),
      theta_B = Some (Fin (992672785448705123853773609785838243372636884801 / 2000708551540977029460345952338213465270605773442))\<rparr>"
  have 1: "em_body [7, 3] 10 (init (Fin (1003 / 2000)) (Fin (997 / 2000))) = Inr ?s1"
    by (simp add: em_body_eq init_def m_step_eq_py_ratio pass_1_A pass_1_B improvement_of_Fin)
  have 2: "em_body [7, 3] 10 ?s1 = Inr ?s2"
    by (simp add: em_body_eq m_step_eq_py_ratio pass_2_A pass_2_B improvement_of_Fin
        numeral_2_eq_2)
  have 3: "\<not> fgt (Fin (1799881199757 / 2000108000162000)) epsilon_default"
    "fgt (Fin (1440080691939954869881239990478625808035314906517059904160 / 1000408294982408817447377975202963875468562838420342467824401)) epsilon_default"
    by (simp_all add: epsilon_default_def)
  from 1 2 3 show ?thesis by (simp only: simp_thms)
qed

text \<open>
  Claim C9, amended.  Idempotence at an exact fixed point: for every experiment set and
  every pair of finite biases that one E/M cycle leaves unchanged (\<open>improvement = 0\<close>), one
  more E/M cycle from the resulting pair, given room in the history arrays, leaves it
  unchanged again (\<open>improvement = 0\<close>).
\<close>

theorem fixed_point_is_stable:
  assumes "em_body hc n st = Inr st1"
    and "pA_heads st ! j st = Fin a" "pB_heads st ! j st = Fin b"
    and "pA_heads st1 ! j st1 = Fin a" "pB_heads st1 ! j st1 = Fin b"
    and "j st1 + 1 < length (pA_heads st1)" "j st1 + 1 < length (pB_heads st1)"
  shows "improvement st1 = Fin 0
    \<and> (\<exists>st2. em_body hc n st1 = Inr st2
          \<and> pA_heads st2 ! j st2 = Fin a \<and> pB_heads st2 ! j st2 = Fin b
          \<and> improvement st2 = Fin 0)"
proof -
  have i1: "improvement st1 = Fin 0"
    using em_body_improvement [OF assms(1)] assms(2-5) by (simp add: improvement_of_Fin)
  from assms(1) have ne: "hc \<noteq> []" by (rule em_body_Inr(1))
  from assms(1,4,5) assms(2,3)
  have r: "py_ratio (expectation_A hc n (Fin a) (Fin b)) = Fin a"
    "py_ratio (expectation_B hc n (Fin a) (Fin b)) = Fin b"
    by (auto simp: em_body_eq split: if_splits)
  from ne assms(6,7) obtain st2 where b2: "em_body hc n st1 = Inr st2"
    by (simp add: em_body_eq)
  from b2 assms(4-7) have v: "pA_heads st2 ! j st2 = Fin a" "pB_heads st2 ! j st2 = Fin b"
    by (auto simp: em_body_eq r split: if_splits)
  have "improvement st2 = Fin 0"
    using em_body_improvement [OF b2] assms(4,5) v by (simp add: improvement_of_Fin)
  with i1 b2 v show ?thesis by blast
qed

theorem fixed_point_is_stable_witness:
  "em_body [5] 10 (init (Fin (1 / 2)) (Fin (1 / 2))) =
     Inr \<lparr>pA_heads = (replicate 100 (Fin 0))[0 := Fin (1 / 2), 1 := Fin (1 / 2)],
          pB_heads = (replicate 100 (Fin 0))[0 := Fin (1 / 2), 1 := Fin (1 / 2)],
          j = 1, improvement = Fin 0,
          theta_A = Some (Fin (1 / 2)), theta_B = Some (Fin (1 / 2))\<rparr>
   \<and> (\<exists>st2. em_body [5] 10
       \<lparr>pA_heads = (replicate 100 (Fin 0))[0 := Fin (1 / 2), 1 := Fin (1 / 2)],
          pB_heads = (replicate 100 (Fin 0))[0 := Fin (1 / 2), 1 := Fin (1 / 2)],
          j = 1, improvement = Fin 0,
          theta_A = Some (Fin (1 / 2)), theta_B = Some (Fin (1 / 2))\<rparr> = Inr st2
        \<and> pA_heads st2 ! j st2 = Fin (1 / 2) \<and> pB_heads st2 ! j st2 = Fin (1 / 2)
        \<and> improvement st2 = Fin 0)"
proof -
  let ?s1 = "\<lparr>pA_heads = (replicate 100 (Fin 0))[0 := Fin (1 / 2), 1 := Fin (1 / 2)],
          pB_heads = (replicate 100 (Fin 0))[0 := Fin (1 / 2), 1 := Fin (1 / 2)],
          j = 1, improvement = Fin 0,
          theta_A = Some (Fin (1 / 2)), theta_B = Some (Fin (1 / 2))\<rparr>"
  have b: "em_body [5] 10 (init (Fin (1 / 2)) (Fin (1 / 2))) = Inr ?s1"
    by (subst em_body_half) (simp_all add: init_def)
  from fixed_point_is_stable [OF b, of "1 / 2" "1 / 2"] b
  show ?thesis by (simp add: init_simps)
qed

end
